theory Spec2Isabelle
  imports Complex_Main "HOL-Library.Char_ord" "HOL-Library.List_Lexorder"
begin

section \<open>Python values: errors and insertion-ordered dictionaries\<close>

text \<open>
  Every \<^verbatim>\<open>raise\<close> of the sources is a value. The \<^verbatim>\<open>ValueError\<close>s of the
  constructors carry a tag naming the check that failed (the messages of the source are
  Portuguese sentences); \<^verbatim>\<open>RuntimeError\<close> is the one raised by the sweep when no
  scenario is viable.
\<close>

datatype value_error =
    CorredoresNaoPositivo
  | PosicoesNaoPositivo
  | TamanhoTabelasDivergente
  | CorredorSemMesa
  | ObjetivoInvalido
  | LimiteSobrealocacaoNegativo
  | PesoRestricaoNegativo string
  | FolgaMinimaNegativa
  | PesoDistanciaNegativo
  | IntLiteralInvalido

datatype py_error =
    ValueError value_error
  | TypeError
  | ZeroDivisionError
  | IndexError
  | KeyError
  | RuntimeError

text \<open>
  A Python \<^verbatim>\<open>dict\<close> keeps insertion order; assigning to a key that is already
  present replaces the value and keeps the key's position.
\<close>

fun dict_set :: "'k \<Rightarrow> 'v \<Rightarrow> ('k \<times> 'v) list \<Rightarrow> ('k \<times> 'v) list" where
  "dict_set k v [] = [(k, v)]"
| "dict_set k v ((k', v') # kvs) =
     (if k' = k then (k, v) # kvs else (k', v') # dict_set k v kvs)"

definition dict_of_list :: "('k \<times> 'v) list \<Rightarrow> ('k \<times> 'v) list" where
  "dict_of_list kvs = fold (\<lambda>(k, v) d. dict_set k v d) kvs []"

text \<open>List subscripting: an index below zero is taken from the end of the list.\<close>

definition py_index :: "'a list \<Rightarrow> int \<Rightarrow> py_error + 'a" where
  "py_index xs i =
     (if 0 \<le> i \<and> i < int (length xs) then Inr (xs ! nat i)
      else if i < 0 \<and> - int (length xs) \<le> i then Inr (xs ! nat (int (length xs) + i))
      else Inl IndexError)"

section \<open>layout\_configuration.py\<close>

record LayoutConfiguration =
  num_corridors :: int
  tables_per_corridor :: "int list"
  positions_per_table :: int

definition LayoutConfiguration_init ::
  "int \<Rightarrow> int list \<Rightarrow> int \<Rightarrow> py_error + LayoutConfiguration" where
  "LayoutConfiguration_init nc tpc ppt =
     (if nc \<le> 0 then Inl (ValueError CorredoresNaoPositivo)
      else if ppt \<le> 0 then Inl (ValueError PosicoesNaoPositivo)
      else if int (length tpc) \<noteq> nc then Inl (ValueError TamanhoTabelasDivergente)
      else if list_ex (\<lambda>num_tables. num_tables \<le> 0) tpc then Inl (ValueError CorredorSemMesa)
      else Inr \<lparr>num_corridors = nc, tables_per_corridor = tpc, positions_per_table = ppt\<rparr>)"

section \<open>configuracao\_modelo\_restricoes.py\<close>

definition OBJETIVOS_VALIDOS :: "string list" where
  "OBJETIVOS_VALIDOS = [''max_ocupacao_media'', ''max_satisfacao'', ''min_desalocacao'']"

record ConfiguracaoModelo =
  funcao_objetivo :: string
  pesos_restricoes :: "(string \<times> rat) list"
  limite_sobrealocacao :: rat
  folga_minima :: int
  peso_distancia :: rat
  dias_obrigatorios_range :: "int list"
  restricoes_realocacao :: "(string \<times> bool) list"

text \<open>\<^verbatim>\<open>sorted(set(xs))\<close> on integers.\<close>

definition sorted_set :: "int list \<Rightarrow> int list" where
  "sorted_set xs = sort (remdups xs)"

definition ConfiguracaoModelo_init ::
  "string \<Rightarrow> (string \<times> rat) list \<Rightarrow> rat \<Rightarrow> int \<Rightarrow> rat \<Rightarrow> int list option
     \<Rightarrow> (string \<times> bool) list option \<Rightarrow> py_error + ConfiguracaoModelo" where
  "ConfiguracaoModelo_init fo pesos limite folga peso_dist dias_range restr =
     (if fo \<notin> set OBJETIVOS_VALIDOS then Inl (ValueError ObjetivoInvalido)
      else if limite < 0 then Inl (ValueError LimiteSobrealocacaoNegativo)
      else case find (\<lambda>(nome, peso). peso < 0) pesos of
        Some (nome, peso) \<Rightarrow> Inl (ValueError (PesoRestricaoNegativo nome))
      | None \<Rightarrow>
          if folga < 0 then Inl (ValueError FolgaMinimaNegativa)
          else if peso_dist < 0 then Inl (ValueError PesoDistanciaNegativo)
          else
            let dias_range' =
                  (case dias_range of
                     None \<Rightarrow> [2]
                   | Some ds \<Rightarrow> if length ds = 0 then [2] else ds)
            in Inr \<lparr>funcao_objetivo = fo,
                    pesos_restricoes = pesos,
                    limite_sobrealocacao = limite,
                    folga_minima = folga,
                    peso_distancia = peso_dist,
                    dias_obrigatorios_range = sorted_set dias_range',
                    restricoes_realocacao =
                      (case restr of None \<Rightarrow> [] | Some r \<Rightarrow> if r = [] then [] else r)\<rparr>)"


section \<open>Strings: formatting, splitting, parsing\<close>

text \<open>
  A string is the list of its code points; every code point of the sources is below 256
  (\<^verbatim>\<open>U+00E7\<close> in the second weekday, \<^verbatim>\<open>U+00B7\<close> in the allocation keys), so one
  \<^typ>\<open>char\<close> stands for one code point and the order of \<^typ>\<open>string\<close> is Python's
  order of \<^verbatim>\<open>str\<close>.
\<close>

definition digit_char :: "nat \<Rightarrow> char" where
  "digit_char d = ''0123456789'' ! d"

fun str_nat :: "nat \<Rightarrow> string" where
  "str_nat n = (if n < 10 then [digit_char n] else str_nat (n div 10) @ [digit_char (n mod 10)])"

declare str_nat.simps [simp del]

text \<open>\<^verbatim>\<open>str(i)\<close>, as an f-string formats an integer.\<close>

definition str_int :: "int \<Rightarrow> string" where
  "str_int i = (if i < 0 then CHR ''-'' # str_nat (nat (- i)) else str_nat (nat i))"

text \<open>
  \<^verbatim>\<open>s.split(sep)\<close> for a separator that is not empty: \<open>skip\<close> counts the characters
  of a separator just matched that are still to be dropped, \<open>cur\<close> is the piece being read.
\<close>

fun split_go :: "string \<Rightarrow> nat \<Rightarrow> string \<Rightarrow> string \<Rightarrow> string list" where
  "split_go sep skip cur [] = [cur]"
| "split_go sep skip cur (c # cs) =
     (if 0 < skip then split_go sep (skip - 1) cur cs
      else if take (length sep) (c # cs) = sep then cur # split_go sep (length sep - 1) [] cs
      else split_go sep 0 (cur @ [c]) cs)"

definition py_split :: "string \<Rightarrow> string \<Rightarrow> string list" where
  "py_split sep s = split_go sep 0 [] s"

definition digit_val :: "char \<Rightarrow> nat option" where
  "digit_val c = (if CHR ''0'' \<le> c \<and> c \<le> CHR ''9'' then Some (of_char c - 48) else None)"

fun parse_digits :: "nat \<Rightarrow> string \<Rightarrow> nat option" where
  "parse_digits acc [] = Some acc"
| "parse_digits acc (c # cs) =
     (case digit_val c of None \<Rightarrow> None | Some d \<Rightarrow> parse_digits (10 * acc + d) cs)"

text \<open>
  \<^verbatim>\<open>int(s)\<close> on a decimal literal with an optional sign; any other string is a
  \<^verbatim>\<open>ValueError\<close> here (the table identifiers parsed below only hold digits).
\<close>

definition py_int :: "string \<Rightarrow> py_error + int" where
  "py_int s =
     (let body = (if s \<noteq> [] \<and> (hd s = CHR ''-'' \<or> hd s = CHR ''+'') then tl s else s)
      in if body = [] then Inl (ValueError IntLiteralInvalido)
         else case parse_digits 0 body of
           None \<Rightarrow> Inl (ValueError IntLiteralInvalido)
         | Some n \<Rightarrow> Inr (if s \<noteq> [] \<and> hd s = CHR ''-'' then - int n else int n))"

text \<open>
  \<^verbatim>\<open>round(q, 3)\<close>, on the exact quotient: to the nearest multiple of one thousandth,
  a tie going to the even one. (The source rounds a float; the two agree wherever the
  float quotient is not at a tie.)
\<close>

definition py_round3 :: "rat \<Rightarrow> rat" where
  "py_round3 q =
     (let n = \<lfloor>q * 1000\<rfloor>; r = q * 1000 - of_int n
      in if r < 1 / 2 then of_int n / 1000
         else if 1 / 2 < r then of_int (n + 1) / 1000
         else if even n then of_int n / 1000 else of_int (n + 1) / 1000)"

section \<open>preferencias\_dias.py and cadastro\_times\_sinergias.py\<close>

definition DIAS_UTEIS :: "string list" where
  "DIAS_UTEIS = [''Segunda'', ''Ter'' @ [CHR 0xE7] @ ''a'', ''Quarta'', ''Quinta'', ''Sexta'']"

record Time =
  nome :: string
  qtde_integrantes :: int
  sinergias :: "string list"

text \<open>The registry's dictionary \<^verbatim>\<open>times\<close>, from team name to team.\<close>

type_synonym CadastroTimesSinergias = "(string \<times> Time) list"

section \<open>execucao\_modelo.py: the venue tables\<close>

type_synonym mesas_t = "(string \<times> (string \<times> int)) list"
type_synonym posicoes_t = "(string \<times> (string \<times> string)) list"
type_synonym dist_t = "((string \<times> string) \<times> int) list"

record ExecucaoModelo =
  layout :: LayoutConfiguration
  cad_times :: CadastroTimesSinergias
  cfg :: ConfiguracaoModelo
  mesas :: mesas_t
  posicoes :: posicoes_t
  dist_tab :: dist_t
  cap_total :: int

text \<open>The inner loop of \<^verbatim>\<open>_lista_mesas\<close>: the tables \<open>1..n\<close> of corridor \<open>cor\<close>.\<close>

definition mesas_do_corredor :: "string \<Rightarrow> int \<Rightarrow> mesas_t \<Rightarrow> mesas_t" where
  "mesas_do_corredor cor n ms =
     fold (\<lambda>m acc. dict_set (cor @ ''_M'' @ str_int m) (cor, m) acc) [1..n] ms"

fun lista_mesas_loop :: "LayoutConfiguration \<Rightarrow> int list \<Rightarrow> mesas_t \<Rightarrow> py_error + mesas_t" where
  "lista_mesas_loop lay [] ms = Inr ms"
| "lista_mesas_loop lay (c # cs) ms =
     (case py_index (tables_per_corridor lay) (c - 1) of
        Inl e \<Rightarrow> Inl e
      | Inr n \<Rightarrow> lista_mesas_loop lay cs (mesas_do_corredor (''Corredor '' @ str_int c) n ms))"

definition lista_mesas :: "LayoutConfiguration \<Rightarrow> py_error + mesas_t" where
  "lista_mesas lay = lista_mesas_loop lay [1..num_corridors lay] []"

definition lista_posicoes :: "LayoutConfiguration \<Rightarrow> mesas_t \<Rightarrow> posicoes_t" where
  "lista_posicoes lay ms =
     fold (\<lambda>(mesa_id, (cor, _)) pos.
             fold (\<lambda>p acc. dict_set (mesa_id @ ''_P'' @ str_int p) (mesa_id, cor) acc)
                  [1..positions_per_table lay] pos)
          ms []"

text \<open>
  \<^verbatim>\<open>_dist_mesas\<close>: both loops run over all tables; a pair whose first identifier is
  not strictly below the second (as strings) is skipped.
\<close>

definition dist_entry :: "string \<times> (string \<times> int) \<Rightarrow> string \<times> (string \<times> int) \<Rightarrow> int" where
  "dist_entry a b =
     (case (a, b) of ((m1, (c1, idx1)), (m2, (c2, idx2))) \<Rightarrow>
        if m1 = m2 then 0 else if c1 = c2 then \<bar>idx1 - idx2\<bar> else 5 + \<bar>idx1 - idx2\<bar>)"

definition dist_mesas :: "mesas_t \<Rightarrow> dist_t" where
  "dist_mesas ms =
     fold (\<lambda>a d. fold (\<lambda>b d'. if fst a \<ge> fst b then d'
                               else dict_set (fst a, fst b) (dist_entry a b) d') ms d)
          ms []"

definition ExecucaoModelo_init ::
  "LayoutConfiguration \<Rightarrow> CadastroTimesSinergias \<Rightarrow> ConfiguracaoModelo \<Rightarrow> py_error + ExecucaoModelo" where
  "ExecucaoModelo_init lay cad conf =
     (case lista_mesas lay of
        Inl e \<Rightarrow> Inl e
      | Inr ms \<Rightarrow>
          let ps = lista_posicoes lay ms
          in Inr \<lparr>layout = lay, cad_times = cad, cfg = conf, mesas = ms, posicoes = ps,
                  dist_tab = dist_mesas ms, cap_total = int (length ps)\<rparr>)"

text \<open>\<^verbatim>\<open>_upper_bound_feasible\<close>; the division is Python's true division.\<close>

definition upper_bound_feasible :: "ExecucaoModelo \<Rightarrow> int \<Rightarrow> bool" where
  "upper_bound_feasible e dias_obrig =
     (let pessoas = sum_list (map (\<lambda>(_, t). qtde_integrantes t) (cad_times e));
          demanda_dia = (of_int (pessoas * dias_obrig) :: rat) / of_int (int (length DIAS_UTEIS))
      in demanda_dia \<le> of_int (cap_total e - folga_minima (cfg e)))"

section \<open>execucao\_modelo.py: the linear program of one scenario\<close>

text \<open>
  A decision variable is identified by the key under which the source stores it:
  \<^verbatim>\<open>x[team, position, day]\<close>, \<^verbatim>\<open>y[team, table, day]\<close>,
  \<^verbatim>\<open>z[team, table1, table2, day]\<close> and \<^verbatim>\<open>pres[team, day]\<close>. All are declared
  with category Binary.
\<close>

datatype lp_var =
    X string string string
  | Y string string string
  | Z string string string string
  | Pres string string

text \<open>An affine expression: its terms (coefficient and variable) and its constant.\<close>

type_synonym lin_expr = "(rat \<times> lp_var) list \<times> rat"

datatype sense = LE | GE | EQ

type_synonym lp_constraint = "lin_expr \<times> sense \<times> lin_expr"

record LpProblem =
  lp_name :: string
  objective :: lin_expr
  constraints :: "lp_constraint list"

definition lpSum :: "lp_var list \<Rightarrow> lin_expr" where
  "lpSum vs = (map (\<lambda>v. (1, v)) vs, 0)"

definition times_of :: "ExecucaoModelo \<Rightarrow> Time list" where
  "times_of e = map snd (cad_times e)"

text \<open>The four variable dictionaries of \<^verbatim>\<open>_solve_for_k\<close>.\<close>

definition x_vars :: "ExecucaoModelo \<Rightarrow> ((string \<times> string \<times> string) \<times> lp_var) list" where
  "x_vars e = dict_of_list
     [((nome t, p, d), X (nome t) p d). t \<leftarrow> times_of e, p \<leftarrow> map fst (posicoes e), d \<leftarrow> DIAS_UTEIS]"

definition y_vars :: "ExecucaoModelo \<Rightarrow> ((string \<times> string \<times> string) \<times> lp_var) list" where
  "y_vars e = dict_of_list
     [((nome t, m, d), Y (nome t) m d). t \<leftarrow> times_of e, m \<leftarrow> map fst (mesas e), d \<leftarrow> DIAS_UTEIS]"

definition z_vars :: "ExecucaoModelo \<Rightarrow> ((string \<times> string \<times> string \<times> string) \<times> lp_var) list" where
  "z_vars e = dict_of_list
     [((nome t, m1, m2, d), Z (nome t) m1 m2 d).
        t \<leftarrow> times_of e, (m1, m2) \<leftarrow> map fst (dist_tab e), d \<leftarrow> DIAS_UTEIS]"

definition pres_vars :: "ExecucaoModelo \<Rightarrow> ((string \<times> string) \<times> lp_var) list" where
  "pres_vars e = dict_of_list
     [((nome t, d), Pres (nome t) d). t \<leftarrow> times_of e, d \<leftarrow> DIAS_UTEIS]"

definition objetivo :: "ExecucaoModelo \<Rightarrow> lin_expr" where
  "objetivo e =
     (map (\<lambda>v. (1, v)) (map snd (x_vars e))
        @ [(- (peso_distancia (cfg e) * of_int dm), Z (nome t) m1 m2 d).
             t \<leftarrow> times_of e, ((m1, m2), dm) \<leftarrow> dist_tab e, d \<leftarrow> DIAS_UTEIS],
      0)"

text \<open>The six families of constraints, in the order the source adds them.\<close>

definition restr_posicao :: "ExecucaoModelo \<Rightarrow> lp_constraint list" where
  "restr_posicao e =
     [(lpSum [X (nome t) p d. t \<leftarrow> times_of e], LE, ([], 1)).
        p \<leftarrow> map fst (posicoes e), d \<leftarrow> DIAS_UTEIS]"

definition pos_mesa :: "ExecucaoModelo \<Rightarrow> string \<Rightarrow> string list" where
  "pos_mesa e m = map fst (filter (\<lambda>(p, (mm, _)). mm = m) (posicoes e))"

definition restr_mesa :: "ExecucaoModelo \<Rightarrow> lp_constraint list" where
  "restr_mesa e =
     concat [concat [
         (lpSum [X (nome t) p d. p \<leftarrow> pos_mesa e m], LE,
            ([(of_int (positions_per_table (layout e)), Y (nome t) m d)], 0))
         # [(lpSum [X (nome t) p d], LE, lpSum [Y (nome t) m d]). p \<leftarrow> pos_mesa e m].
       d \<leftarrow> DIAS_UTEIS].
     t \<leftarrow> times_of e, m \<leftarrow> map fst (mesas e)]"

definition restr_divisao :: "ExecucaoModelo \<Rightarrow> lp_constraint list" where
  "restr_divisao e =
     [(lpSum [Z (nome t) m1 m2 d], GE, ([(1, Y (nome t) m1 d), (1, Y (nome t) m2 d)], - 1)).
        t \<leftarrow> times_of e, (m1, m2) \<leftarrow> map fst (dist_tab e), d \<leftarrow> DIAS_UTEIS]"

definition restr_presenca :: "ExecucaoModelo \<Rightarrow> lp_constraint list" where
  "restr_presenca e =
     [(lpSum [X (nome t) p d. p \<leftarrow> map fst (posicoes e)], EQ,
         ([(of_int (qtde_integrantes t), Pres (nome t) d)], 0)).
        t \<leftarrow> times_of e, d \<leftarrow> DIAS_UTEIS]"

definition restr_dias :: "ExecucaoModelo \<Rightarrow> int \<Rightarrow> lp_constraint list" where
  "restr_dias e dias_obrig =
     [(lpSum [Pres (nome t) d. d \<leftarrow> DIAS_UTEIS], EQ, ([], of_int dias_obrig)). t \<leftarrow> times_of e]"

definition restr_folga :: "ExecucaoModelo \<Rightarrow> lp_constraint list" where
  "restr_folga e =
     [(lpSum [X (nome t) p d. t \<leftarrow> times_of e, p \<leftarrow> map fst (posicoes e)], LE,
         ([], of_int (cap_total e - folga_minima (cfg e)))).
        d \<leftarrow> DIAS_UTEIS]"

definition formular :: "ExecucaoModelo \<Rightarrow> int \<Rightarrow> LpProblem" where
  "formular e dias_obrig =
     \<lparr>lp_name = ''Alocacao_k'' @ str_int dias_obrig,
      objective = objetivo e,
      constraints = restr_posicao e @ restr_mesa e @ restr_divisao e @ restr_presenca e
                      @ restr_dias e dias_obrig @ restr_folga e\<rparr>"

text \<open>\<^verbatim>\<open>prob.variables()\<close>: the variables that occur in the objective or in a constraint.\<close>

definition vars_of_constraint :: "lp_constraint \<Rightarrow> lp_var list" where
  "vars_of_constraint c = (case c of ((l, _), _, (r, _)) \<Rightarrow> map snd l @ map snd r)"

definition variables :: "LpProblem \<Rightarrow> lp_var list" where
  "variables prob =
     remdups (map snd (fst (objective prob)) @ concat (map vars_of_constraint (constraints prob)))"

subsection \<open>What it means for an assignment to satisfy the program\<close>

definition eval_expr :: "(lp_var \<Rightarrow> rat) \<Rightarrow> lin_expr \<Rightarrow> rat" where
  "eval_expr \<sigma> ex = sum_list (map (\<lambda>(c, v). c * \<sigma> v) (fst ex)) + snd ex"

fun holds :: "(lp_var \<Rightarrow> rat) \<Rightarrow> lp_constraint \<Rightarrow> bool" where
  "holds \<sigma> (l, LE, r) = (eval_expr \<sigma> l \<le> eval_expr \<sigma> r)"
| "holds \<sigma> (l, GE, r) = (eval_expr \<sigma> l \<ge> eval_expr \<sigma> r)"
| "holds \<sigma> (l, EQ, r) = (eval_expr \<sigma> l = eval_expr \<sigma> r)"

definition binary :: "(lp_var \<Rightarrow> rat) \<Rightarrow> lp_var \<Rightarrow> bool" where
  "binary \<sigma> v = (\<sigma> v = 0 \<or> \<sigma> v = 1)"

definition satisfies :: "(lp_var \<Rightarrow> rat) \<Rightarrow> LpProblem \<Rightarrow> bool" where
  "satisfies \<sigma> prob =
     (list_all (binary \<sigma>) (variables prob) \<and> list_all (holds \<sigma>) (constraints prob))"

subsection \<open>The solver and the outcome of one scenario\<close>

text \<open>
  Modelled from the spec: the status codes of the solver library and its table
  \<^verbatim>\<open>LpStatus\<close> from code to name, which are not part of the repository; the names
  are the library's, as the source's comments and the spec give them.
\<close>

datatype lp_status =
    LpStatusNotSolved
  | LpStatusOptimal
  | LpStatusInfeasible
  | LpStatusUnbounded
  | LpStatusUndefined

fun LpStatus :: "lp_status \<Rightarrow> string" where
  "LpStatus LpStatusNotSolved = ''Not Solved''"
| "LpStatus LpStatusOptimal = ''Optimal''"
| "LpStatus LpStatusInfeasible = ''Infeasible''"
| "LpStatus LpStatusUnbounded = ''Unbounded''"
| "LpStatus LpStatusUndefined = ''Undefined''"

definition VIABLE_STATI :: "lp_status list" where
  "VIABLE_STATI = [LpStatusOptimal]"

definition INFEASIBLE_STATI :: "lp_status list" where
  "INFEASIBLE_STATI = [LpStatusInfeasible, LpStatusUnbounded, LpStatusUndefined]"

definition MAYBE_STATI :: "lp_status list" where
  "MAYBE_STATI = [LpStatusNotSolved]"

text \<open>
  What a call of the solver leaves behind: the status of the problem, the value of each
  variable (\<open>None\<close> where the solver assigned none) and the measured duration, already
  rounded. The solver itself is a parameter of the model.
\<close>

record solve_out =
  prob_status :: lp_status
  var_value :: "lp_var \<Rightarrow> rat option"
  runtime :: rat

type_synonym solver_t = "LpProblem \<Rightarrow> solve_out"

text \<open>\<^verbatim>\<open>sum\<close> over values of which some may be \<^verbatim>\<open>None\<close>.\<close>

fun py_sum :: "rat option list \<Rightarrow> py_error + rat" where
  "py_sum [] = Inr 0"
| "py_sum (None # vs) = Inl TypeError"
| "py_sum (Some v # vs) = (case py_sum vs of Inl e \<Rightarrow> Inl e | Inr s \<Rightarrow> Inr (v + s))"

text \<open>
  The dictionary a scenario returns: the status alone, or the status with the metrics,
  the solved problem (with the values the solver left in it) and the map of the
  \<^verbatim>\<open>x\<close> variables.
\<close>

datatype resultado =
    SoStatus string
  | Completo string rat rat rat LpProblem "lp_var \<Rightarrow> rat option"
             "((string \<times> string \<times> string) \<times> lp_var) list"

fun status_of :: "resultado \<Rightarrow> string" where
  "status_of (SoStatus s) = s"
| "status_of (Completo s _ _ _ _ _ _) = s"

text \<open>
  \<^verbatim>\<open>_solve_for_k\<close>. The first component lists the problems handed to the solver.
\<close>

definition metricas ::
  "ExecucaoModelo \<Rightarrow> string \<Rightarrow> LpProblem \<Rightarrow> solve_out \<Rightarrow> py_error + resultado" where
  "metricas e status prob out =
     (let ND = int (length DIAS_UTEIS) in
      case py_sum (map (\<lambda>(_, var). var_value out var) (x_vars e)) of
        Inl err \<Rightarrow> Inl err
      | Inr ocup_total \<Rightarrow>
          if ND * cap_total e = 0 then Inl ZeroDivisionError
          else Inr (Completo status ocup_total
                      (py_round3 (ocup_total / of_int (ND * cap_total e)))
                      (runtime out) prob (var_value out) (x_vars e)))"

definition solve_for_k ::
  "ExecucaoModelo \<Rightarrow> solver_t \<Rightarrow> int \<Rightarrow> LpProblem list \<times> (py_error + resultado)" where
  "solve_for_k e solver dias_obrig =
     (if \<not> upper_bound_feasible e dias_obrig then ([], Inr (SoStatus ''EarlyInfeasible''))
      else
        let prob = formular e dias_obrig;
            out = solver prob;
            status = LpStatus (prob_status out)
        in ([prob],
            if prob_status out \<in> set INFEASIBLE_STATI then Inr (SoStatus status)
            else if prob_status out \<in> set MAYBE_STATI then
              (if list_ex (\<lambda>v. var_value out v \<noteq> None) (variables prob)
               then metricas e ''Feasible'' prob out
               else Inr (SoStatus status))
            else metricas e status prob out))"

section \<open>execucao\_modelo.py: the sweep over the scenarios\<close>

text \<open>One table of an allocation: its number, its corridor, the teams seated at it.\<close>

record mesa_dict =
  mesa :: int
  corredor :: string
  posicoes_md :: "string list"

type_synonym aloc_t = "(string \<times> mesa_dict list) list"

text \<open>
  The table numbered \<open>num\<close> is looked up in the list of a key; the first match receives
  the team, and if there is none a new table holding the team is appended.
\<close>

fun add_team :: "int \<Rightarrow> string \<Rightarrow> string \<Rightarrow> mesa_dict list \<Rightarrow> mesa_dict list" where
  "add_team num cor team [] = [\<lparr>mesa = num, corredor = cor, posicoes_md = [team]\<rparr>]"
| "add_team num cor team (m # ms) =
     (if mesa m = num then m\<lparr>posicoes_md := posicoes_md m @ [team]\<rparr> # ms
      else m # add_team num cor team ms)"

definition chave_aloc :: "int \<Rightarrow> string \<Rightarrow> string \<Rightarrow> string" where
  "chave_aloc k dia cor = str_int k @ ''d | '' @ dia @ '' '' @ [CHR 0xB7] @ '' '' @ cor"

text \<open>The body of the extraction loop, for one entry of the \<^verbatim>\<open>x\<close> dictionary.\<close>

definition extrai_item ::
  "ExecucaoModelo \<Rightarrow> int \<Rightarrow> (lp_var \<Rightarrow> rat option)
     \<Rightarrow> (string \<times> string \<times> string) \<times> lp_var \<Rightarrow> aloc_t \<Rightarrow> py_error + aloc_t" where
  "extrai_item e k val item aloc =
     (case item of ((team, pos, dia), var) \<Rightarrow>
        if val var \<noteq> Some 1 then Inr aloc
        else (case map_of (posicoes e) pos of
          None \<Rightarrow> Inl KeyError
        | Some (mesa_id, cor) \<Rightarrow>
            (case py_index (py_split ''_M'' mesa_id) 1 of
               Inl err \<Rightarrow> Inl err
             | Inr numero \<Rightarrow>
                 (case py_int numero of
                    Inl err \<Rightarrow> Inl err
                  | Inr mesa_num \<Rightarrow>
                      let chave = chave_aloc k dia cor;
                          lst = (case map_of aloc chave of None \<Rightarrow> [] | Some l \<Rightarrow> l)
                      in Inr (dict_set chave (add_team mesa_num cor team lst) aloc)))))"

fun extrair ::
  "ExecucaoModelo \<Rightarrow> int \<Rightarrow> (lp_var \<Rightarrow> rat option)
     \<Rightarrow> ((string \<times> string \<times> string) \<times> lp_var) list \<Rightarrow> aloc_t \<Rightarrow> py_error + aloc_t" where
  "extrair e k val [] aloc = Inr aloc"
| "extrair e k val (item # items) aloc =
     (case extrai_item e k val item aloc of
        Inl err \<Rightarrow> Inl err
      | Inr aloc' \<Rightarrow> extrair e k val items aloc')"

record metricas_t =
  ocup_total :: rat
  taxa_semanal :: rat
  tempo_execucao :: rat

text \<open>
  The five dictionaries \<^verbatim>\<open>executar\<close> fills (\<open>viaveis\<close> is returned under the key
  \<^verbatim>\<open>cenarios\<close>), and what it returns.
\<close>

record acumulado =
  viaveis :: "(int \<times> metricas_t) list"
  alocacoes :: "(int \<times> aloc_t) list"
  model_dict :: "(int \<times> LpProblem \<times> (lp_var \<Rightarrow> rat option)) list"
  vars_dict :: "(int \<times> ((string \<times> string \<times> string) \<times> lp_var) list) list"
  inviaveis :: "(int \<times> string) list"

record retorno = acumulado +
  mensagem :: string

definition passo :: "ExecucaoModelo \<Rightarrow> solver_t \<Rightarrow> int \<Rightarrow> acumulado \<Rightarrow> py_error + acumulado" where
  "passo e solver k acc =
     (case snd (solve_for_k e solver k) of
        Inl err \<Rightarrow> Inl err
      | Inr res \<Rightarrow>
          if status_of res \<in> set [''Optimal'', ''Feasible''] then
            (case res of
               SoStatus _ \<Rightarrow> Inl KeyError
             | Completo st ocup taxa tempo model val xv \<Rightarrow>
                 (case extrair e k val xv [] of
                    Inl err \<Rightarrow> Inl err
                  | Inr aloc \<Rightarrow>
                      Inr (acc\<lparr>viaveis := dict_set k
                                   \<lparr>ocup_total = ocup, taxa_semanal = taxa, tempo_execucao = tempo\<rparr>
                                   (viaveis acc),
                               model_dict := dict_set k (model, val) (model_dict acc),
                               vars_dict := dict_set k xv (vars_dict acc),
                               alocacoes := dict_set k aloc (alocacoes acc)\<rparr>)))
          else Inr (acc\<lparr>inviaveis := dict_set k (status_of res) (inviaveis acc)\<rparr>))"

fun varrer :: "ExecucaoModelo \<Rightarrow> solver_t \<Rightarrow> int list \<Rightarrow> acumulado \<Rightarrow> py_error + acumulado" where
  "varrer e solver [] acc = Inr acc"
| "varrer e solver (k # ks) acc =
     (case passo e solver k acc of
        Inl err \<Rightarrow> Inl err
      | Inr acc' \<Rightarrow> varrer e solver ks acc')"

definition executar :: "ExecucaoModelo \<Rightarrow> solver_t \<Rightarrow> py_error + retorno" where
  "executar e solver =
     (case varrer e solver (dias_obrigatorios_range (cfg e))
             \<lparr>viaveis = [], alocacoes = [], model_dict = [], vars_dict = [], inviaveis = []\<rparr> of
        Inl err \<Rightarrow> Inl err
      | Inr acc \<Rightarrow>
          if viaveis acc = [] then Inl RuntimeError
          else Inr (acumulado.extend acc
                      \<lparr>mensagem = ''Processo conclu'' @ [CHR 0xED] @ ''do.''\<rparr>))"

text \<open>How the sweep classifies the outcome of one scenario.\<close>

definition accepted :: "ExecucaoModelo \<Rightarrow> solver_t \<Rightarrow> int \<Rightarrow> bool" where
  "accepted e solver k =
     (case snd (solve_for_k e solver k) of
        Inr (Completo st _ _ _ _ _ _) \<Rightarrow> st = ''Optimal'' \<or> st = ''Feasible''
      | _ \<Rightarrow> False)"

definition rejected :: "ExecucaoModelo \<Rightarrow> solver_t \<Rightarrow> int \<Rightarrow> bool" where
  "rejected e solver k =
     (case snd (solve_for_k e solver k) of
        Inr (SoStatus st) \<Rightarrow> st \<noteq> ''Optimal'' \<and> st \<noteq> ''Feasible''
      | _ \<Rightarrow> False)"

section \<open>Concrete scenarios\<close>

text \<open>
  A venue of one seat, a configuration sweeping one and five required days, a team that
  fits and one that does not, and a solver that reports an optimum seating every team on
  Monday.
\<close>

definition layout_min :: LayoutConfiguration where
  "layout_min = \<lparr>num_corridors = 1, tables_per_corridor = [1], positions_per_table = 1\<rparr>"

definition cfg_15 :: ConfiguracaoModelo where
  "cfg_15 = projr (ConfiguracaoModelo_init ''max_satisfacao'' [] 0 0 10 (Some [5, 1, 5]) None)"

definition cad_a :: CadastroTimesSinergias where
  "cad_a = [(''A'', \<lparr>nome = ''A'', qtde_integrantes = 1, sinergias = []\<rparr>)]"

definition cad_g :: CadastroTimesSinergias where
  "cad_g = [(''G'', \<lparr>nome = ''G'', qtde_integrantes = 6, sinergias = []\<rparr>)]"

definition sigma_seg :: "lp_var \<Rightarrow> rat" where
  "sigma_seg v = (case v of
       X t p d \<Rightarrow> if d = ''Segunda'' then 1 else 0
     | Y t m d \<Rightarrow> if d = ''Segunda'' then 1 else 0
     | Z t m1 m2 d \<Rightarrow> 0
     | Pres t d \<Rightarrow> if d = ''Segunda'' then 1 else 0)"

definition solver_seg :: solver_t where
  "solver_seg prob = \<lparr>prob_status = LpStatusOptimal, var_value = (\<lambda>v. Some (sigma_seg v)), runtime = 0\<rparr>"

definition e_a :: ExecucaoModelo where
  "e_a = projr (ExecucaoModelo_init layout_min cad_a cfg_15)"

definition e_g :: ExecucaoModelo where
  "e_g = projr (ExecucaoModelo_init layout_min cad_g cfg_15)"

text \<open>A venue of two corridors, with two tables and one table.\<close>

definition layout_tres :: LayoutConfiguration where
  "layout_tres = \<lparr>num_corridors = 2, tables_per_corridor = [2, 1], positions_per_table = 1\<rparr>"

definition e_tres :: ExecucaoModelo where
  "e_tres = projr (ExecucaoModelo_init layout_tres cad_a cfg_15)"

section \<open>Venue construction: validation\<close>


text \<open>
  C9. Constructing the venue description raises a configuration error exactly when the
  corridor count is not positive, the positions per table are not positive, the list of
  table counts has a length other than the corridor count, or some corridor has a
  non-positive table count; otherwise the three inputs are stored as given.
\<close>

theorem layout_init_fails_iff_invalid:
  "(\<exists>e. LayoutConfiguration_init nc tpc ppt = Inl (ValueError e))
     = (nc \<le> 0 \<or> ppt \<le> 0 \<or> int (length tpc) \<noteq> nc \<or> (\<exists>n \<in> set tpc. n \<le> 0))
   \<and> (LayoutConfiguration_init nc tpc ppt
        = Inr \<lparr>num_corridors = nc, tables_per_corridor = tpc, positions_per_table = ppt\<rparr>)
     = (\<not> (nc \<le> 0 \<or> ppt \<le> 0 \<or> int (length tpc) \<noteq> nc \<or> (\<exists>n \<in> set tpc. n \<le> 0)))"
  by (auto simp: LayoutConfiguration_init_def list_ex_iff)

theorem layout_init_fails_iff_invalid_witness:
  "(\<exists>e. LayoutConfiguration_init 2 [3, 0] 4 = Inl (ValueError e))
   \<and> (\<exists>n \<in> set [3, 0 :: int]. n \<le> 0)
   \<and> LayoutConfiguration_init 3 [2, 3, 2] 4
       = Inr \<lparr>num_corridors = 3, tables_per_corridor = [2, 3, 2], positions_per_table = 4\<rparr>"
  using layout_init_fails_iff_invalid [of 2 "[3, 0]" 4]
        layout_init_fails_iff_invalid [of 3 "[2, 3, 2]" 4]
  by simp

section \<open>Dictionaries and the outcome of one scenario\<close>

lemma map_of_dict_set: "map_of (dict_set k v d) = (map_of d)(k \<mapsto> v)"
  by (induction d) (auto simp: fun_eq_iff)

lemma dict_set_keys: "fst ` set (dict_set k v d) = insert k (fst ` set d)"
proof -
  have "fst ` set (dict_set k v d) = dom (map_of (dict_set k v d))"
    by (simp add: dom_map_of_conv_image_fst)
  also have "\<dots> = insert k (dom (map_of d))"
    by (simp add: map_of_dict_set)
  finally show ?thesis
    by (simp add: dom_map_of_conv_image_fst)
qed

lemma dict_set_distinct: "distinct (map fst d) \<Longrightarrow> distinct (map fst (dict_set k v d))"
proof (induction d)
  case Nil
  then show ?case by simp
next
  case (Cons a d)
  obtain k' v' where a: "a = (k', v')" by (cases a)
  show ?case
  proof (cases "k' = k")
    case True
    with Cons.prems a show ?thesis by simp
  next
    case False
    have "k' \<notin> fst ` set (dict_set k v d)"
      using Cons.prems a False by (simp add: dict_set_keys)
    with Cons a False show ?thesis by simp
  qed
qed

lemma dict_set_not_Nil: "dict_set k v d \<noteq> []"
  by (cases d) (auto split: if_splits)


lemma py_sum_cases: "py_sum vs = Inl TypeError \<or> (\<exists>s. py_sum vs = Inr s)"
  by (induction vs rule: py_sum.induct) (auto split: sum.splits)

lemma metricas_cases:
  "metricas e st prob out = Inl TypeError \<or> metricas e st prob out = Inl ZeroDivisionError
   \<or> (\<exists>oc tx. metricas e st prob out = Inr (Completo st oc tx (runtime out) prob (var_value out) (x_vars e)))"
  using py_sum_cases [of "map (\<lambda>(_, var). var_value out var) (x_vars e)"]
  by (auto simp: metricas_def Let_def split: sum.splits)


lemma solve_for_k_cases:
  "snd (solve_for_k e solver k) = Inl TypeError
   \<or> snd (solve_for_k e solver k) = Inl ZeroDivisionError
   \<or> (\<exists>st. snd (solve_for_k e solver k) = Inr (SoStatus st) \<and> st \<noteq> ''Optimal'' \<and> st \<noteq> ''Feasible'')
   \<or> (\<exists>st oc tx tm. snd (solve_for_k e solver k)
          = Inr (Completo st oc tx tm (formular e k) (var_value (solver (formular e k))) (x_vars e))
        \<and> (st = ''Optimal'' \<or> st = ''Feasible''))"
proof (cases "upper_bound_feasible e k")
  case False
  then show ?thesis by (simp add: solve_for_k_def)
next
  case True
  let ?out = "solver (formular e k)"
  show ?thesis
  proof (cases "prob_status ?out")
    case LpStatusNotSolved
    then show ?thesis
      using True metricas_cases [of e "''Feasible''" "formular e k" ?out]
      by (auto simp: solve_for_k_def Let_def INFEASIBLE_STATI_def MAYBE_STATI_def)
  next
    case LpStatusOptimal
    then show ?thesis
      using True metricas_cases [of e "''Optimal''" "formular e k" ?out]
      by (auto simp: solve_for_k_def Let_def INFEASIBLE_STATI_def MAYBE_STATI_def)
  next
    case LpStatusInfeasible
    then show ?thesis
      using True by (simp add: solve_for_k_def Let_def INFEASIBLE_STATI_def)
  next
    case LpStatusUnbounded
    then show ?thesis
      using True by (simp add: solve_for_k_def Let_def INFEASIBLE_STATI_def)
  next
    case LpStatusUndefined
    then show ?thesis
      using True by (simp add: solve_for_k_def Let_def INFEASIBLE_STATI_def)
  qed
qed

lemma accepted_or_rejected:
  "snd (solve_for_k e solver k) = Inr r \<Longrightarrow> accepted e solver k \<noteq> rejected e solver k"
  using solve_for_k_cases [of e solver k]
  by (auto simp: accepted_def rejected_def)


section \<open>The feasibility pre-check\<close>




section \<open>The sweep\<close>

lemma passo_rejected:
  assumes "rejected e solver k"
  shows "passo e solver k acc = Inr (acc\<lparr>inviaveis := dict_set k (status_of (projr (snd (solve_for_k e solver k)))) (inviaveis acc)\<rparr>)"
  using assms by (auto simp: rejected_def passo_def split: sum.splits resultado.splits)

lemma passo_Inr:
  assumes "passo e solver k acc = Inr acc'"
  shows "(rejected e solver k \<and> viaveis acc' = viaveis acc
            \<and> fst ` set (inviaveis acc') = insert k (fst ` set (inviaveis acc)))
       \<or> (accepted e solver k \<and> fst ` set (viaveis acc') = insert k (fst ` set (viaveis acc))
            \<and> inviaveis acc' = inviaveis acc)"
proof -
  from assms have "snd (solve_for_k e solver k) \<noteq> Inl TypeError"
    "snd (solve_for_k e solver k) \<noteq> Inl ZeroDivisionError"
    by (auto simp: passo_def)
  with solve_for_k_cases [of e solver k] consider
    (rej) st where "snd (solve_for_k e solver k) = Inr (SoStatus st)" "st \<noteq> ''Optimal''" "st \<noteq> ''Feasible''"
  | (acc) st oc tx tm where "snd (solve_for_k e solver k)
          = Inr (Completo st oc tx tm (formular e k) (var_value (solver (formular e k))) (x_vars e))"
        "st = ''Optimal'' \<or> st = ''Feasible''"
    by blast
  then show ?thesis
  proof cases
    case rej
    with assms have "acc' = acc\<lparr>inviaveis := dict_set k st (inviaveis acc)\<rparr>"
      by (simp add: passo_def)
    with rej show ?thesis
      by (simp add: rejected_def dict_set_keys)
  next
    case acc
    with assms obtain aloc where
      "acc' = acc\<lparr>viaveis := dict_set k \<lparr>ocup_total = oc, taxa_semanal = tx, tempo_execucao = tm\<rparr> (viaveis acc),
                   model_dict := dict_set k (formular e k, var_value (solver (formular e k))) (model_dict acc),
                   vars_dict := dict_set k (x_vars e) (vars_dict acc),
                   alocacoes := dict_set k aloc (alocacoes acc)\<rparr>"
      by (auto simp: passo_def split: sum.splits)
    with acc show ?thesis
      by (simp add: accepted_def dict_set_keys)
  qed
qed

lemma extrai_item_no_runtime: "extrai_item e k val item aloc \<noteq> Inl RuntimeError"
  by (auto simp: extrai_item_def py_index_def py_int_def Let_def
           split: prod.splits option.splits sum.splits if_splits)

lemma extrair_no_runtime: "extrair e k val items aloc \<noteq> Inl RuntimeError"
  by (induction items arbitrary: aloc) (auto simp: extrai_item_no_runtime split: sum.splits)

lemma passo_no_runtime: "passo e solver k acc \<noteq> Inl RuntimeError"
  using solve_for_k_cases [of e solver k]
  by (auto simp: passo_def extrair_no_runtime split: sum.splits resultado.splits)

lemma varrer_no_runtime: "varrer e solver ks acc \<noteq> Inl RuntimeError"
  by (induction ks arbitrary: acc) (auto simp: passo_no_runtime split: sum.splits)

lemma varrer_Inr:
  "varrer e solver ks acc = Inr acc' \<Longrightarrow>
     (\<forall>k \<in> set ks. accepted e solver k \<or> rejected e solver k)
     \<and> fst ` set (viaveis acc') = fst ` set (viaveis acc) \<union> {k \<in> set ks. accepted e solver k}
     \<and> fst ` set (inviaveis acc') = fst ` set (inviaveis acc) \<union> {k \<in> set ks. rejected e solver k}"
proof (induction ks arbitrary: acc)
  case Nil
  then show ?case by simp
next
  case (Cons k ks)
  from Cons.prems obtain acc1 where p: "passo e solver k acc = Inr acc1"
    and v: "varrer e solver ks acc1 = Inr acc'"
    by (auto split: sum.splits)
  from p have "snd (solve_for_k e solver k) \<noteq> Inl TypeError \<and> snd (solve_for_k e solver k) \<noteq> Inl ZeroDivisionError"
    by (auto simp: passo_def)
  then obtain r where r: "snd (solve_for_k e solver k) = Inr r"
    using solve_for_k_cases [of e solver k] by auto
  note ar = accepted_or_rejected [OF r]
  from passo_Inr [OF p] Cons.IH [OF v] ar show ?case
    by auto
qed

lemma varrer_all_rejected:
  "\<forall>k \<in> set ks. rejected e solver k \<Longrightarrow>
     \<exists>acc'. varrer e solver ks acc = Inr acc' \<and> viaveis acc' = viaveis acc"
proof (induction ks arbitrary: acc)
  case Nil
  then show ?case by simp
next
  case (Cons k ks)
  then have rk: "rejected e solver k" by simp
  let ?a = "acc\<lparr>inviaveis := dict_set k (status_of (projr (snd (solve_for_k e solver k)))) (inviaveis acc)\<rparr>"
  from Cons.IH [of ?a] Cons.prems obtain acc' where "varrer e solver ks ?a = Inr acc'" "viaveis acc' = viaveis ?a"
    by auto
  then show ?case using passo_rejected [OF rk, of acc] by simp
qed

text \<open>
  C3. The sweep raises its terminal error exactly when every configured scenario is
  rejected (by the solver's status or by the pre-check); when it returns, the scenarios
  it reports as viable are exactly the accepted ones, and there is at least one.
\<close>

theorem sweep_fails_iff_no_scenario_accepted:
  "(executar e solver = Inl RuntimeError)
     = (\<forall>k \<in> set (dias_obrigatorios_range (cfg e)). rejected e solver k)
   \<and> (\<forall>r. executar e solver = Inr r \<longrightarrow>
         viaveis r \<noteq> []
         \<and> (\<exists>k \<in> set (dias_obrigatorios_range (cfg e)). accepted e solver k)
         \<and> fst ` set (viaveis r) = {k \<in> set (dias_obrigatorios_range (cfg e)). accepted e solver k})"
proof -
  let ?ks = "dias_obrigatorios_range (cfg e)"
  let ?a0 = "\<lparr>viaveis = [], alocacoes = [], model_dict = [], vars_dict = [], inviaveis = []\<rparr>"
  have fwd: "\<forall>k \<in> set ?ks. rejected e solver k" if "executar e solver = Inl RuntimeError"
  proof -
    from that obtain acc where v: "varrer e solver ?ks ?a0 = Inr acc" and em: "viaveis acc = []"
      using varrer_no_runtime [of e solver ?ks ?a0]
      by (auto simp: executar_def split: sum.splits if_splits)
    from varrer_Inr [OF v] em show ?thesis by auto
  qed
  have bwd: "executar e solver = Inl RuntimeError" if "\<forall>k \<in> set ?ks. rejected e solver k"
    using varrer_all_rejected [OF that, of ?a0] by (auto simp: executar_def)
  have ok: "viaveis r \<noteq> [] \<and> (\<exists>k \<in> set ?ks. accepted e solver k)
         \<and> fst ` set (viaveis r) = {k \<in> set ?ks. accepted e solver k}" if "executar e solver = Inr r" for r
  proof -
    from that obtain acc where v: "varrer e solver ?ks ?a0 = Inr acc" and ne: "viaveis acc \<noteq> []"
      and r: "r = acumulado.extend acc \<lparr>mensagem = ''Processo conclu'' @ [CHR 0xED] @ ''do.''\<rparr>"
      by (auto simp: executar_def split: sum.splits if_splits)
    have vr: "viaveis r = viaveis acc" by (simp add: r acumulado.defs)
    from varrer_Inr [OF v] have k: "fst ` set (viaveis acc) = {k \<in> set ?ks. accepted e solver k}" by simp
    from ne have "fst ` set (viaveis acc) \<noteq> {}" by simp
    with k vr ne show ?thesis by auto
  qed
  from fwd bwd ok show ?thesis by blast
qed

theorem sweep_fails_iff_no_scenario_accepted_witness:
  "executar e_g solver_seg = Inl RuntimeError
   \<and> dias_obrigatorios_range (cfg e_g) = [1, 5]
   \<and> rejected e_g solver_seg 1 \<and> rejected e_g solver_seg 5
   \<and> (\<exists>r. executar e_a solver_seg = Inr r \<and> viaveis r \<noteq> [] \<and> accepted e_a solver_seg 1)"
proof -
  have rej: "\<forall>k \<in> set (dias_obrigatorios_range (cfg e_g)). rejected e_g solver_seg k"
    by code_simp
  have ok: "\<not> isl (executar e_a solver_seg)"
    by code_simp
  then obtain r where r: "executar e_a solver_seg = Inr r"
    by (cases "executar e_a solver_seg") auto
  have acc: "accepted e_a solver_seg 1"
    by code_simp
  have ks: "dias_obrigatorios_range (cfg e_g) = [1, 5]"
    by code_simp
  from rej r acc ks show ?thesis
    using sweep_fails_iff_no_scenario_accepted [of e_g solver_seg]
          sweep_fails_iff_no_scenario_accepted [of e_a solver_seg]
    by auto
qed





section \<open>What the constraints of a scenario enforce\<close>

lemma eval_lpSum: "eval_expr \<sigma> (lpSum vs) = sum_list (map \<sigma> vs)"
  by (simp add: eval_expr_def lpSum_def comp_def)

lemma satisfies_holds:
  "satisfies \<sigma> prob \<Longrightarrow> c \<in> set (constraints prob) \<Longrightarrow> holds \<sigma> c"
  by (simp add: satisfies_def list_all_iff)

lemma satisfies_binary:
  "satisfies \<sigma> prob \<Longrightarrow> c \<in> set (constraints prob) \<Longrightarrow> v \<in> set (vars_of_constraint c)
     \<Longrightarrow> \<sigma> v = 0 \<or> \<sigma> v = 1"
  by (auto simp: satisfies_def list_all_iff variables_def binary_def)


lemma dias_mem:
  "t \<in> set (times_of e) \<Longrightarrow>
     (lpSum [Pres (nome t) d. d \<leftarrow> DIAS_UTEIS], EQ, ([], of_int k))
     \<in> set (constraints (formular e k))"
  by (auto simp: formular_def restr_dias_def)


lemma sum_list_binary_count:
  "\<forall>x \<in> set xs. f x = 0 \<or> f x = (1 :: rat) \<Longrightarrow>
     sum_list (map f xs) = of_nat (length (filter (\<lambda>x. f x = 1) xs))"
  by (induction xs) auto

text \<open>
  C5. In every assignment that satisfies the program of the scenario \<open>k\<close>, the presence
  indicators of a team over the five working days add up to \<open>k\<close> exactly; the team is
  present on exactly \<open>k\<close> of the days.
\<close>

theorem presence_days_equal_k:
  assumes sat: "satisfies \<sigma> (formular e k)" and t: "t \<in> set (times_of e)"
  shows "(\<Sum>d\<leftarrow>DIAS_UTEIS. \<sigma> (Pres (nome t) d)) = of_int k
       \<and> int (length (filter (\<lambda>d. \<sigma> (Pres (nome t) d) = 1) DIAS_UTEIS)) = k
       \<and> length DIAS_UTEIS = 5"
proof -
  let ?c = "(lpSum [Pres (nome t) d. d \<leftarrow> DIAS_UTEIS], EQ, ([], of_int k :: rat))"
  have m: "?c \<in> set (constraints (formular e k))"
    by (rule dias_mem [OF t])
  from satisfies_holds [OF sat m]
  have eq: "(\<Sum>d\<leftarrow>DIAS_UTEIS. \<sigma> (Pres (nome t) d)) = of_int k"
    by (simp add: eval_lpSum comp_def) (simp add: eval_expr_def)
  have "\<forall>d \<in> set DIAS_UTEIS. \<sigma> (Pres (nome t) d) = 0 \<or> \<sigma> (Pres (nome t) d) = 1"
  proof
    fix d assume "d \<in> set DIAS_UTEIS"
    then have "Pres (nome t) d \<in> set (vars_of_constraint ?c)"
      by (simp add: vars_of_constraint_def lpSum_def)
    from satisfies_binary [OF sat m this]
    show "\<sigma> (Pres (nome t) d) = 0 \<or> \<sigma> (Pres (nome t) d) = 1" .
  qed
  from sum_list_binary_count [OF this] eq
  have "(of_nat (length (filter (\<lambda>d. \<sigma> (Pres (nome t) d) = 1) DIAS_UTEIS)) :: rat) = of_int k"
    by simp
  then have "(of_int (int (length (filter (\<lambda>d. \<sigma> (Pres (nome t) d) = 1) DIAS_UTEIS))) :: rat) = of_int k"
    by simp
  then have cnt: "int (length (filter (\<lambda>d. \<sigma> (Pres (nome t) d) = 1) DIAS_UTEIS)) = k"
    by (simp only: of_int_eq_iff)
  from eq cnt show ?thesis by (simp add: DIAS_UTEIS_def)
qed

lemma sat_a: "satisfies sigma_seg (formular e_a 1)"
  by code_simp

lemma t_a: "\<lparr>nome = ''A'', qtde_integrantes = 1, sinergias = []\<rparr> \<in> set (times_of e_a)"
  by code_simp


theorem presence_days_equal_k_witness:
  "satisfies sigma_seg (formular e_a 1)
   \<and> (\<Sum>d\<leftarrow>DIAS_UTEIS. sigma_seg (Pres ''A'' d)) = 1"
  using presence_days_equal_k [OF sat_a t_a] sat_a by simp

section \<open>The distance table\<close>

lemma fold_cond_set_miss:
  "(\<forall>b \<in> set bs. \<not> P b \<longrightarrow> key b \<noteq> q) \<Longrightarrow>
     map_of (fold (\<lambda>b d. if P b then d else dict_set (key b) (val b) d) bs d0) q = map_of d0 q"
  by (induction bs arbitrary: d0) (auto simp: map_of_dict_set)

lemma fold_cond_set_hit:
  "(\<forall>b \<in> set bs. \<not> P b \<longrightarrow> key b = q \<longrightarrow> val b = v) \<Longrightarrow>
   map_of d0 q = Some v \<or> (\<exists>b \<in> set bs. \<not> P b \<and> key b = q) \<Longrightarrow>
     map_of (fold (\<lambda>b d. if P b then d else dict_set (key b) (val b) d) bs d0) q = Some v"
proof (induction bs arbitrary: d0)
  case Nil
  then show ?case by simp
next
  case (Cons b bs)
  let ?d1 = "if P b then d0 else dict_set (key b) (val b) d0"
  have all: "\<forall>b \<in> set bs. \<not> P b \<longrightarrow> key b = q \<longrightarrow> val b = v"
    using Cons.prems(1) by simp
  have "map_of ?d1 q = Some v \<or> (\<exists>b \<in> set bs. \<not> P b \<and> key b = q)"
    using Cons.prems by (auto simp: map_of_dict_set)
  from Cons.IH [OF all this] show ?case by simp
qed

lemma fold_nested_product:
  "fold (\<lambda>a d. fold (f a) ys d) xs d0 = fold (\<lambda>(a, b). f a b) (List.product xs ys) d0"
proof (induction xs arbitrary: d0)
  case Nil
  then show ?case by simp
next
  case (Cons x xs)
  have "fold (\<lambda>(a, b). f a b) (map (Pair x) ys) d0 = fold (f x) ys d0"
    by (simp add: fold_map comp_def)
  with Cons show ?case by simp
qed

lemma dist_mesas_product:
  "dist_mesas ms =
     fold (\<lambda>ab d. if fst (fst ab) \<ge> fst (snd ab) then d
                  else dict_set (fst (fst ab), fst (snd ab)) (dist_entry (fst ab) (snd ab)) d)
          (List.product ms ms) []"
  unfolding dist_mesas_def fold_nested_product by (simp add: case_prod_unfold)

lemma dist_mesas_lookup:
  assumes dis: "distinct (map fst ms)"
  shows "map_of (dist_mesas ms) (m1, m2) =
     (case (map_of ms m1, map_of ms m2) of
        (Some v1, Some v2) \<Rightarrow> if m1 < m2 then Some (dist_entry (m1, v1) (m2, v2)) else None
      | _ \<Rightarrow> None)"
proof (cases "m1 < m2 \<and> m1 \<in> fst ` set ms \<and> m2 \<in> fst ` set ms")
  case True
  then obtain v1 v2 where v1: "(m1, v1) \<in> set ms" and v2: "(m2, v2) \<in> set ms"
    by auto
  with dis have mo: "map_of ms m1 = Some v1" "map_of ms m2 = Some v2"
    by simp_all
  have uniq: "\<forall>ab \<in> set (List.product ms ms). \<not> fst (fst ab) \<ge> fst (snd ab)
        \<longrightarrow> (fst (fst ab), fst (snd ab)) = (m1, m2)
        \<longrightarrow> dist_entry (fst ab) (snd ab) = dist_entry (m1, v1) (m2, v2)"
  proof (intro ballI impI)
    fix ab assume ab: "ab \<in> set (List.product ms ms)" and k: "(fst (fst ab), fst (snd ab)) = (m1, m2)"
    obtain a b where [simp]: "ab = (a, b)" by (cases ab)
    from ab have "(fst a, snd a) \<in> set ms" "(fst b, snd b) \<in> set ms" by auto
    then have "map_of ms (fst a) = Some (snd a)" "map_of ms (fst b) = Some (snd b)"
      using dis by simp_all
    with k mo have "snd a = v1" "snd b = v2" "fst a = m1" "fst b = m2"
      by simp_all
    then have "a = (m1, v1)" "b = (m2, v2)"
      by (simp_all add: prod_eq_iff)
    then show "dist_entry (fst ab) (snd ab) = dist_entry (m1, v1) (m2, v2)" by simp
  qed
  have ex: "\<exists>ab \<in> set (List.product ms ms). \<not> fst (fst ab) \<ge> fst (snd ab)
        \<and> (fst (fst ab), fst (snd ab)) = (m1, m2)"
    using v1 v2 True by (intro bexI [of _ "((m1, v1), (m2, v2))"]) auto
  have "map_of (dist_mesas ms) (m1, m2) = Some (dist_entry (m1, v1) (m2, v2))"
    unfolding dist_mesas_product
    by (rule fold_cond_set_hit [where P = "\<lambda>ab. fst (fst ab) \<ge> fst (snd ab)"
          and key = "\<lambda>ab. (fst (fst ab), fst (snd ab))", OF uniq]) (use ex in blast)
  with mo True show ?thesis by simp
next
  case False
  have miss: "\<forall>ab \<in> set (List.product ms ms). \<not> fst (fst ab) \<ge> fst (snd ab)
        \<longrightarrow> (fst (fst ab), fst (snd ab)) \<noteq> (m1, m2)"
    using False by (auto simp: not_le)
  have "map_of (dist_mesas ms) (m1, m2) = None"
    unfolding dist_mesas_product
    using fold_cond_set_miss [where P = "\<lambda>ab. fst (fst ab) \<ge> fst (snd ab)"
          and key = "\<lambda>ab. (fst (fst ab), fst (snd ab))"
          and val = "\<lambda>ab. dist_entry (fst ab) (snd ab)" and ?d0.0 = "[]", OF miss]
    by simp
  moreover have "m1 \<notin> fst ` set ms \<Longrightarrow> map_of ms m1 = None"
    by (simp add: map_of_eq_None_iff)
  moreover have "m2 \<notin> fst ` set ms \<Longrightarrow> map_of ms m2 = None"
    by (simp add: map_of_eq_None_iff)
  ultimately show ?thesis using False
    by (auto split: option.splits)
qed

lemma fold_dict_set_distinct:
  "distinct (map fst d) \<Longrightarrow> distinct (map fst (fold (\<lambda>x acc. dict_set (kf x) (vf x) acc) xs d))"
  by (induction xs arbitrary: d) (simp_all add: dict_set_distinct)

lemma mesas_do_corredor_distinct:
  "distinct (map fst ms) \<Longrightarrow> distinct (map fst (mesas_do_corredor cor n ms))"
  unfolding mesas_do_corredor_def by (rule fold_dict_set_distinct)

lemma lista_mesas_loop_distinct:
  "lista_mesas_loop lay cs ms = Inr ms' \<Longrightarrow> distinct (map fst ms) \<Longrightarrow> distinct (map fst ms')"
  by (induction cs arbitrary: ms) (auto simp: mesas_do_corredor_distinct split: sum.splits)

lemma init_mesas_distinct:
  "ExecucaoModelo_init lay cad conf = Inr e \<Longrightarrow> distinct (map fst (mesas e))"
  by (auto simp: ExecucaoModelo_init_def lista_mesas_def Let_def split: sum.splits
           dest: lista_mesas_loop_distinct)

lemma init_dist_tab:
  "ExecucaoModelo_init lay cad conf = Inr e \<Longrightarrow> dist_tab e = dist_mesas (mesas e)"
  by (auto simp: ExecucaoModelo_init_def Let_def split: sum.splits)

text \<open>
  C6. The distance table built with the venue holds, for two distinct tables, one entry:
  under the key that puts first the table whose identifier is the smaller string. That
  entry is the absolute difference of the two indices within their corridors when the
  corridors are the same, and 5 plus that difference when they differ, which is the
  same number whichever table is taken first; under the reversed key the table holds
  nothing.
\<close>

theorem dist_tab_ordered_pairs:
  assumes init: "ExecucaoModelo_init lay cad conf = Inr e"
    and m1: "map_of (mesas e) m1 = Some (c1, i1)"
    and m2: "map_of (mesas e) m2 = Some (c2, i2)"
    and lt: "m1 < m2"
  shows "map_of (dist_tab e) (m1, m2) = Some (if c1 = c2 then \<bar>i1 - i2\<bar> else 5 + \<bar>i1 - i2\<bar>)
       \<and> map_of (dist_tab e) (m2, m1) = None
       \<and> (if c1 = c2 then \<bar>i1 - i2\<bar> else 5 + \<bar>i1 - i2\<bar>)
           = (if c2 = c1 then \<bar>i2 - i1\<bar> else 5 + \<bar>i2 - i1\<bar>)"
proof -
  note dis = init_mesas_distinct [OF init]
  from lt have ne: "m1 \<noteq> m2" and nlt: "\<not> m2 < m1" by auto
  have a: "map_of (dist_tab e) (m1, m2) = Some (if c1 = c2 then \<bar>i1 - i2\<bar> else 5 + \<bar>i1 - i2\<bar>)"
    using dist_mesas_lookup [OF dis, of m1 m2] m1 m2 lt ne
    by (simp add: init_dist_tab [OF init] dist_entry_def)
  have b: "map_of (dist_tab e) (m2, m1) = None"
    using dist_mesas_lookup [OF dis, of m2 m1] m1 m2 nlt
    by (simp add: init_dist_tab [OF init])
  from a b show ?thesis by (simp add: abs_minus_commute)
qed

lemma e_tres_init: "ExecucaoModelo_init layout_tres cad_a cfg_15 = Inr e_tres"
  by code_simp

theorem dist_tab_ordered_pairs_witness:
  "map_of (dist_tab e_tres) (''Corredor 1_M1'', ''Corredor 1_M2'') = Some 1
   \<and> map_of (dist_tab e_tres) (''Corredor 1_M2'', ''Corredor 2_M1'') = Some 6
   \<and> map_of (dist_tab e_tres) (''Corredor 2_M1'', ''Corredor 1_M2'') = None"
proof -
  have a: "map_of (mesas e_tres) ''Corredor 1_M1'' = Some (''Corredor 1'', 1)"
    and b: "map_of (mesas e_tres) ''Corredor 1_M2'' = Some (''Corredor 1'', 2)"
    and c: "map_of (mesas e_tres) ''Corredor 2_M1'' = Some (''Corredor 2'', 1)"
    by code_simp+
  have ab: "(''Corredor 1_M1'' :: string) < ''Corredor 1_M2''"
    and bc: "(''Corredor 1_M2'' :: string) < ''Corredor 2_M1''"
    by simp_all
  from dist_tab_ordered_pairs [OF e_tres_init a b ab] dist_tab_ordered_pairs [OF e_tres_init b c bc]
  show ?thesis by simp
qed

text \<open>
  As a lookup table the distance is neither symmetric nor defined on a pair of equal
  tables: of the two orders of a pair only one is a key, and no table is paired with
  itself.
\<close>

theorem dist_tab_not_symmetric_nor_zero_on_self:
  "map_of (dist_tab e_tres) (''Corredor 1_M1'', ''Corredor 1_M2'') = Some 1
   \<and> map_of (dist_tab e_tres) (''Corredor 1_M2'', ''Corredor 1_M1'') = None
   \<and> map_of (dist_tab e_tres) (''Corredor 1_M1'', ''Corredor 1_M1'') = None"
  by code_simp

end
